theory Spec2Isabelle
  imports Main
begin

section \<open>The ticket service of \<^verbatim>\<open>src/pairtest/TicketService.js\<close>\<close>

text \<open>
  The service is one JavaScript class. Its methods are embedded one by one, under their
  own names (the two copies of the file differ only in a leading underscore of the
  method names and in comments):
  \<^item> a request is read through its two properties \<^verbatim>\<open>getTicketType\<close> and
    \<^verbatim>\<open>noOfTickets\<close>, as the destructuring patterns of the source do; the category
    is any string, the count any integer (zero and negative counts included: the code
    tests neither);
  \<^item> a \<^verbatim>\<open>throw\<close> is the left injection of a sum, so that every method that can throw
    returns \<open>exn + 'a\<close>;
  \<^item> \<^verbatim>\<open>Array.prototype.reduce\<close> with an initial value is \<open>foldl\<close>;
  \<^item> the two collaborators are parameters of \<open>purchase\<close>: each is a function from its
    arguments to the settled state of the promise it returns, and every invocation is
    appended to a log of calls that is threaded through.
\<close>

subsection \<open>Values\<close>

text \<open>
  The numbers the service computes with: integers, and \<open>NaN\<close>, which arithmetic on
  \<^verbatim>\<open>undefined\<close> produces. \<open>Undefined\<close> is the value of a property that an object
  does not have.
\<close>

datatype jsval = Num int | Undefined | NaN

text \<open>\<^verbatim>\<open>a * b\<close> and \<^verbatim>\<open>a + b\<close> on these values (the left operand of \<open>+\<close> is the accumulator
  of a reduction, the left operand of \<open>*\<close> a ticket count).\<close>

fun js_times :: "int \<Rightarrow> jsval \<Rightarrow> jsval" where
  "js_times n (Num p) = Num (n * p)"
| "js_times n Undefined = NaN"
| "js_times n NaN = NaN"

fun js_plus :: "jsval \<Rightarrow> jsval \<Rightarrow> jsval" where
  "js_plus (Num a) (Num b) = Num (a + b)"
| "js_plus a b = NaN"

text \<open>The two kinds of exception the file constructs, each with its message.
  \<^verbatim>\<open>InvalidPurchaseException\<close> is imported from \<^verbatim>\<open>./lib\<close>; only its constructor
  is used.\<close>

datatype exn = Error string | InvalidPurchaseException string

fun message :: "exn \<Rightarrow> string" where
  "message (Error m) = m"
| "message (InvalidPurchaseException m) = m"

text \<open>Decimal rendering of a number inside a template literal.\<close>

fun String :: "nat \<Rightarrow> string" where
  "String n =
     (if n < 10 then [''0123456789'' ! n]
      else String (n div 10) @ [''0123456789'' ! (n mod 10)])"

subsection \<open>Data model\<close>

record TicketType =
  type :: string
  price :: int

record TicketTypeRequest =
  getTicketType :: string
  noOfTickets :: int

definition maxTicketsLimit :: nat where
  "maxTicketsLimit = 20"

definition ticketTypes :: "(string \<times> TicketType) list" where
  "ticketTypes =
     [(''ADULT'', \<lparr>type = ''ADULT'', price = 20\<rparr>),
      (''CHILD'', \<lparr>type = ''CHILD'', price = 10\<rparr>),
      (''INFANT'', \<lparr>type = ''INFANT'', price = 0\<rparr>)]"

text \<open>
  \<^verbatim>\<open>ticketTypes\<close> is an object literal, so its prototype is \<^verbatim>\<open>Object.prototype\<close>, and
  the computed member access \<^verbatim>\<open>this.ticketTypes[ticketType]\<close> of \<^verbatim>\<open>getTicketPrice\<close>
  finds the members of the prototype as well as the three own keys. These are the names
  \<^verbatim>\<open>Object.prototype\<close> carries; each is bound to a function or an object, none of
  which has a property \<^verbatim>\<open>price\<close>.
\<close>

definition objectPrototypeKeys :: "string list" where
  "objectPrototypeKeys =
     [''constructor'', ''hasOwnProperty'', ''isPrototypeOf'', ''propertyIsEnumerable'',
      ''toLocaleString'', ''toString'', ''valueOf'', ''__proto__'',
      ''__defineGetter__'', ''__defineSetter__'', ''__lookupGetter__'',
      ''__lookupSetter__'']"

datatype member = OwnMember TicketType | InheritedMember | NoMember

definition ticketTypes_get :: "string \<Rightarrow> member" where
  "ticketTypes_get k =
     (case map_of ticketTypes k of
        Some t \<Rightarrow> OwnMember t
      | None \<Rightarrow> if k \<in> set objectPrototypeKeys then InheritedMember else NoMember)"

subsection \<open>The methods\<close>

text \<open>\<^verbatim>\<open>getTicketPrice\<close>: the guard \<^verbatim>\<open>!ticketTypeObj\<close> holds for \<^verbatim>\<open>undefined\<close> only;
  an inherited member is truthy and its \<^verbatim>\<open>price\<close> is \<^verbatim>\<open>undefined\<close>.\<close>

definition getTicketPrice :: "string \<Rightarrow> exn + jsval" where
  "getTicketPrice ticketType =
     (case ticketTypes_get ticketType of
        NoMember \<Rightarrow>
          Inl (InvalidPurchaseException (''Invalid ticket type: '' @ ticketType))
      | OwnMember ticketTypeObj \<Rightarrow> Inr (Num (price ticketTypeObj))
      | InheritedMember \<Rightarrow> Inr Undefined)"

definition calculateTotalTickets :: "TicketTypeRequest list \<Rightarrow> int" where
  "calculateTotalTickets ticketTypeRequests =
     foldl (\<lambda>acc r. acc + noOfTickets r) 0 ticketTypeRequests"

text \<open>The reduction of \<^verbatim>\<open>calculateTotalPrice\<close>; a throwing callback ends it.\<close>

fun reducePrice :: "jsval \<Rightarrow> TicketTypeRequest list \<Rightarrow> exn + jsval" where
  "reducePrice acc [] = Inr acc"
| "reducePrice acc (r # rs) =
     (case getTicketPrice (getTicketType r) of
        Inl e \<Rightarrow> Inl e
      | Inr p \<Rightarrow> reducePrice (js_plus acc (js_times (noOfTickets r) p)) rs)"

definition calculateTotalPrice :: "'a \<Rightarrow> TicketTypeRequest list \<Rightarrow> exn + jsval" where
  "calculateTotalPrice accountId ticketTypeRequests = reducePrice (Num 0) ticketTypeRequests"

definition validatePurchase :: "TicketTypeRequest list \<Rightarrow> exn + unit" where
  "validatePurchase ticketTypeRequests =
     (let totalTickets = calculateTotalTickets ticketTypeRequests in
      if length ticketTypeRequests > maxTicketsLimit then
        Inl (Error (''Maximum of '' @ String maxTicketsLimit @
                    '' tickets can be purchased at a time''))
      else if totalTickets = 0 then
        Inl (Error ''No tickets selected'')
      else
        let adultTickets = find (\<lambda>r. getTicketType r = ''ADULT'') ticketTypeRequests;
            hasChildOrInfantWithoutAdult =
              list_ex (\<lambda>r. (getTicketType r = ''CHILD'' \<or> getTicketType r = ''INFANT'')
                          \<and> noOfTickets r > 0 \<and> adultTickets = None)
                ticketTypeRequests
        in if hasChildOrInfantWithoutAdult then
             Inl (Error ''Child and Infant tickets cannot be purchased without purchasing an Adult ticket'')
           else Inr ())"

text \<open>The seat count \<^verbatim>\<open>reserveSeats\<close> computes before it calls the collaborator.\<close>

definition seatsToReserve :: "TicketTypeRequest list \<Rightarrow> int" where
  "seatsToReserve ticketTypeRequests =
     foldl (\<lambda>acc r.
              let ticketType = getTicketType r;
                  seatsRequired =
                    (if ticketType = ''ADULT'' \<or> ticketType = ''CHILD'' then noOfTickets r
                     else 0)
              in acc + seatsRequired)
       0 ticketTypeRequests"

subsection \<open>Collaborators, promises and \<^verbatim>\<open>purchase\<close>\<close>

text \<open>
  A promise is modelled by the state it settles in. The payment collaborator's
  \<^verbatim>\<open>pay\<close> returns a promise (the contract the \<^verbatim>\<open>.then\<close> of \<^verbatim>\<open>purchase\<close> relies on);
  the result of the reservation collaborator is adopted by the promise chain, whether it
  is a promise, a plain value or a throw. A call to \<open>purchase\<close> either throws before it
  has built any promise, or returns a promise.
\<close>

datatype promise = Resolved | Rejected exn

datatype outcome = Threw exn | Returned promise

datatype 'a call = Pay 'a jsval | ReserveSeats int

type_synonym 'a ticketPaymentService = "'a \<Rightarrow> jsval \<Rightarrow> promise"
type_synonym seatReservationService = "int \<Rightarrow> promise"

definition reserveSeats ::
  "seatReservationService \<Rightarrow> TicketTypeRequest list \<Rightarrow> 'a call list \<Rightarrow> promise \<times> 'a call list"
where
  "reserveSeats seatReservationService ticketTypeRequests calls =
     (let n = seatsToReserve ticketTypeRequests
      in (seatReservationService n, calls @ [ReserveSeats n]))"

text \<open>\<^verbatim>\<open>p.then(() => f())\<close>: \<open>f\<close> runs only when \<open>p\<close> resolves.\<close>

fun then_promise ::
  "promise \<times> 'c \<Rightarrow> ('c \<Rightarrow> promise \<times> 'c) \<Rightarrow> promise \<times> 'c" where
  "then_promise (Resolved, calls) f = f calls"
| "then_promise (Rejected e, calls) f = (Rejected e, calls)"

text \<open>\<^verbatim>\<open>p.catch(error => { throw new InvalidPurchaseException(error.message) })\<close>.\<close>

fun catch_promise :: "promise \<times> 'c \<Rightarrow> promise \<times> 'c" where
  "catch_promise (Resolved, calls) = (Resolved, calls)"
| "catch_promise (Rejected error, calls) =
     (Rejected (InvalidPurchaseException (message error)), calls)"

definition purchase ::
  "'a ticketPaymentService \<Rightarrow> seatReservationService \<Rightarrow> 'a \<Rightarrow> TicketTypeRequest list
     \<Rightarrow> outcome \<times> 'a call list"
where
  "purchase ticketPaymentService seatReservationService accountId ticketTypeRequests =
     (case validatePurchase ticketTypeRequests of
        Inl e \<Rightarrow> (Threw e, [])
      | Inr _ \<Rightarrow>
          (case calculateTotalPrice accountId ticketTypeRequests of
             Inl e \<Rightarrow> (Threw e, [])
           | Inr totalPrice \<Rightarrow>
               (case catch_promise
                       (then_promise
                          (ticketPaymentService accountId totalPrice,
                           [Pay accountId totalPrice])
                          (reserveSeats seatReservationService ticketTypeRequests))
                of (p, calls) \<Rightarrow> (Returned p, calls))))"

text \<open>The outcome is a promise rejected with an \<^verbatim>\<open>InvalidPurchaseException\<close>.\<close>

fun rejectsWithPurchaseException :: "outcome \<Rightarrow> bool" where
  "rejectsWithPurchaseException (Returned (Rejected (InvalidPurchaseException m))) = True"
| "rejectsWithPurchaseException out = False"

subsection \<open>The validation rules in the words of the specification\<close>

text \<open>
  The three rules of validate as section 4.1 of the specification words them, each as a
  predicate that holds when the rule is violated: the total requested ticket count (the
  sum of all counts) exceeds 20; the total is below 1; some CHILD or INFANT request has a
  count above 0 and no ADULT request exists. They are not part of the code: the code is
  compared with them.
\<close>

definition spec_countLimitViolated :: "TicketTypeRequest list \<Rightarrow> bool" where
  "spec_countLimitViolated requests = (sum_list (map noOfTickets requests) > 20)"

definition spec_emptinessViolated :: "TicketTypeRequest list \<Rightarrow> bool" where
  "spec_emptinessViolated requests = (sum_list (map noOfTickets requests) < 1)"

definition spec_adultAccompanimentViolated :: "TicketTypeRequest list \<Rightarrow> bool" where
  "spec_adultAccompanimentViolated requests =
     (list_ex (\<lambda>r. (getTicketType r = ''CHILD'' \<or> getTicketType r = ''INFANT'')
                  \<and> noOfTickets r > 0) requests
      \<and> list_all (\<lambda>r. getTicketType r \<noteq> ''ADULT'') requests)"

text \<open>The three errors, with the message texts of the code.\<close>

definition maxTicketsError :: exn where
  "maxTicketsError = Error ''Maximum of 20 tickets can be purchased at a time''"

definition noTicketsError :: exn where
  "noTicketsError = Error ''No tickets selected''"

definition adultRequiredError :: exn where
  "adultRequiredError =
     Error ''Child and Infant tickets cannot be purchased without purchasing an Adult ticket''"

text \<open>Rules applied in the order of a list: the first violated rule gives the error.\<close>

fun firstFailure :: "(('a \<Rightarrow> bool) \<times> exn) list \<Rightarrow> 'a \<Rightarrow> exn + unit" where
  "firstFailure [] x = Inr ()"
| "firstFailure ((violated, e) # rules) x =
     (if violated x then Inl e else firstFailure rules x)"

text \<open>validate as the specification describes it: count limit, then emptiness, then
  adult accompaniment, the first violated rule giving the error.\<close>

definition spec_validate :: "TicketTypeRequest list \<Rightarrow> exn + unit" where
  "spec_validate requests =
     firstFailure
       [(spec_countLimitViolated, maxTicketsError),
        (spec_emptinessViolated, noTicketsError),
        (spec_adultAccompanimentViolated, adultRequiredError)] requests"

subsection \<open>Test doubles\<close>

text \<open>The collaborators as the test suite stubs them: a payment that resolves, one that
  rejects with \<^verbatim>\<open>new Error('Payment failed')\<close>, and a reservation that resolves; with
  them a reservation that rejects.\<close>

definition payResolves :: "string ticketPaymentService" where
  "payResolves accountId totalPrice = Resolved"

definition payRejects :: "string ticketPaymentService" where
  "payRejects accountId totalPrice = Rejected (Error ''Payment failed'')"

definition reserveResolves :: seatReservationService where
  "reserveResolves seats = Resolved"

definition reserveRejects :: seatReservationService where
  "reserveRejects seats = Rejected (Error ''Reservation failed'')"

section \<open>Properties\<close>

subsection \<open>Basic facts\<close>

declare String.simps [simp del]

lemma String_maxTicketsLimit: "String maxTicketsLimit = ''20''"
  by (simp add: maxTicketsLimit_def String.simps)

lemma foldl_plus_sum_list:
  "foldl (\<lambda>acc r. acc + f r) (a::int) rs = a + sum_list (map f rs)"
  by (induction rs arbitrary: a) simp_all

lemma calculateTotalTickets_sum_list:
  "calculateTotalTickets rs = sum_list (map noOfTickets rs)"
  by (simp add: calculateTotalTickets_def foldl_plus_sum_list)

text \<open>
  When every count is positive, a list has at most as many entries as tickets: a list
  whose total is within the limit then passes the test on the number of entries.
\<close>

lemma length_le_calculateTotalTickets:
  "list_all (\<lambda>r. 0 < noOfTickets r) rs \<Longrightarrow> int (length rs) \<le> calculateTotalTickets rs"
  unfolding calculateTotalTickets_sum_list
  by (induction rs) auto

lemma positive_counts_within_limit:
  assumes "list_all (\<lambda>r. 0 < noOfTickets r) rs"
    and "calculateTotalTickets rs \<le> int maxTicketsLimit"
  shows "\<not> length rs > maxTicketsLimit"
  using length_le_calculateTotalTickets [OF assms(1)] assms(2) by linarith

lemma validatePurchase_Nil: "validatePurchase [] = Inl (Error ''No tickets selected'')"
  by (simp add: validatePurchase_def calculateTotalTickets_def maxTicketsLimit_def)

lemma validatePurchase_two_adults:
  "validatePurchase [\<lparr>getTicketType = ''ADULT'', noOfTickets = 2\<rparr>] = Inr ()"
  by (simp add: validatePurchase_def calculateTotalTickets_def maxTicketsLimit_def)

lemma validatePurchase_throws_Error:
  "validatePurchase rs = Inl e \<Longrightarrow> e = Error (message e)"
  by (auto simp add: validatePurchase_def Let_def split: if_splits)

lemma getTicketPrice_table:
  "getTicketPrice ''ADULT'' = Inr (Num 20)"
  "getTicketPrice ''CHILD'' = Inr (Num 10)"
  "getTicketPrice ''INFANT'' = Inr (Num 0)"
  by (simp_all add: getTicketPrice_def ticketTypes_get_def ticketTypes_def)

lemma calculateTotalPrice_two_adults:
  "calculateTotalPrice accountId [\<lparr>getTicketType = ''ADULT'', noOfTickets = 2\<rparr>] = Inr (Num 40)"
  by (simp add: calculateTotalPrice_def getTicketPrice_table)

lemma seatsToReserve_two_adults:
  "seatsToReserve [\<lparr>getTicketType = ''ADULT'', noOfTickets = 2\<rparr>] = 2"
  by (simp add: seatsToReserve_def)

text \<open>Pricing throws nothing but an \<^verbatim>\<open>InvalidPurchaseException\<close>.\<close>

lemma reducePrice_throws_InvalidPurchaseException:
  "reducePrice acc rs = Inl e \<Longrightarrow> e = InvalidPurchaseException (message e)"
proof (induction rs arbitrary: acc)
  case Nil
  then show ?case by simp
next
  case (Cons r rs)
  show ?case
  proof (cases "getTicketPrice (getTicketType r)")
    case (Inl e')
    with Cons.prems have "e = e'" by simp
    with Inl show ?thesis
      by (auto simp add: getTicketPrice_def split: member.splits)
  next
    case (Inr p)
    with Cons.prems Cons.IH show ?thesis by simp
  qed
qed

subsection \<open>What \<^verbatim>\<open>purchase\<close> does, case by case\<close>

lemma purchase_validation_throws:
  "validatePurchase rs = Inl e \<Longrightarrow> purchase pay reserve accountId rs = (Threw e, [])"
  by (simp add: purchase_def)

lemma purchase_pricing_throws:
  "validatePurchase rs = Inr () \<Longrightarrow> calculateTotalPrice accountId rs = Inl e \<Longrightarrow>
   purchase pay reserve accountId rs = (Threw e, [])"
  by (simp add: purchase_def)

lemma purchase_payment_rejected:
  "validatePurchase rs = Inr () \<Longrightarrow> calculateTotalPrice accountId rs = Inr totalPrice \<Longrightarrow>
   pay accountId totalPrice = Rejected err \<Longrightarrow>
   purchase pay reserve accountId rs =
     (Returned (Rejected (InvalidPurchaseException (message err))), [Pay accountId totalPrice])"
  by (simp add: purchase_def)

lemma purchase_reservation_rejected:
  "validatePurchase rs = Inr () \<Longrightarrow> calculateTotalPrice accountId rs = Inr totalPrice \<Longrightarrow>
   pay accountId totalPrice = Resolved \<Longrightarrow> reserve (seatsToReserve rs) = Rejected err \<Longrightarrow>
   purchase pay reserve accountId rs =
     (Returned (Rejected (InvalidPurchaseException (message err))),
      [Pay accountId totalPrice, ReserveSeats (seatsToReserve rs)])"
  by (simp add: purchase_def reserveSeats_def Let_def)

lemma purchase_resolved:
  "validatePurchase rs = Inr () \<Longrightarrow> calculateTotalPrice accountId rs = Inr totalPrice \<Longrightarrow>
   pay accountId totalPrice = Resolved \<Longrightarrow> reserve (seatsToReserve rs) = Resolved \<Longrightarrow>
   purchase pay reserve accountId rs =
     (Returned Resolved, [Pay accountId totalPrice, ReserveSeats (seatsToReserve rs)])"
  by (simp add: purchase_def reserveSeats_def Let_def)

lemma purchase_chain_calls:
  "set (snd (catch_promise (then_promise (p, [Pay a x]) (reserveSeats reserve rs))))
     \<subseteq> {Pay a x, ReserveSeats (seatsToReserve rs)}"
  by (cases p; cases "reserve (seatsToReserve rs)") (simp_all add: reserveSeats_def Let_def)

subsection \<open>Validation\<close>

text \<open>
  What the count-limit test of \<^verbatim>\<open>validatePurchase\<close> does: it throws as soon as the list
  has more than 20 entries, whatever the entries are.
\<close>

lemma validatePurchase_many_entries:
  "length rs > maxTicketsLimit \<Longrightarrow>
   validatePurchase rs = Inl (Error ''Maximum of 20 tickets can be purchased at a time'')"
  by (simp add: validatePurchase_def String_maxTicketsLimit Let_def)

text \<open>
  Claim C1: every request list whose total requested ticket count (the sum of all counts)
  exceeds 20 is refused by validate with the max-tickets message, however the tickets are
  distributed over the entries.

  The code computes the total and then compares \<^verbatim>\<open>ticketTypeRequests.length\<close> with the
  limit. A single request for 21 adult tickets has a total of 21 and one entry: it passes
  validation, and a purchase of it pays for 21 tickets and reserves 21 seats.
\<close>

theorem validatePurchase_single_request_over_limit:
  "calculateTotalTickets [\<lparr>getTicketType = ''ADULT'', noOfTickets = 21\<rparr>] = 21
   \<and> validatePurchase [\<lparr>getTicketType = ''ADULT'', noOfTickets = 21\<rparr>] = Inr ()
   \<and> purchase payResolves reserveResolves ''112233''
         [\<lparr>getTicketType = ''ADULT'', noOfTickets = 21\<rparr>]
       = (Returned Resolved, [Pay ''112233'' (Num 420), ReserveSeats 21])"
  by (simp add: purchase_def validatePurchase_def calculateTotalTickets_def
      maxTicketsLimit_def calculateTotalPrice_def getTicketPrice_table payResolves_def
      reserveResolves_def reserveSeats_def seatsToReserve_def)

text \<open>
  The tests of \<^verbatim>\<open>validatePurchase\<close> run in the order of the source: the number of
  entries against the limit, the total against zero, then the adult test.
\<close>

lemma validatePurchase_tests_in_order:
  "validatePurchase rs =
     firstFailure
       [(\<lambda>rs. length rs > maxTicketsLimit, maxTicketsError),
        (\<lambda>rs. calculateTotalTickets rs = 0, noTicketsError),
        (\<lambda>rs. list_ex (\<lambda>r. (getTicketType r = ''CHILD'' \<or> getTicketType r = ''INFANT'')
                          \<and> noOfTickets r > 0
                          \<and> find (\<lambda>r. getTicketType r = ''ADULT'') rs = None) rs,
         adultRequiredError)] rs"
  by (simp add: validatePurchase_def maxTicketsError_def noTicketsError_def
      adultRequiredError_def String_maxTicketsLimit Let_def)

text \<open>
  On lists of positive counts the code agrees with the rules of the specification, applied
  in their order, whenever the list has more than 20 entries or a total of at most 20.
\<close>

lemma validatePurchase_agrees_with_spec:
  assumes positive: "list_all (\<lambda>r. 0 < noOfTickets r) rs"
    and range: "length rs > maxTicketsLimit \<or> sum_list (map noOfTickets rs) \<le> 20"
  shows "validatePurchase rs = spec_validate rs"
proof -
  from length_le_calculateTotalTickets [OF positive]
  have entries: "int (length rs) \<le> sum_list (map noOfTickets rs)"
    by (simp add: calculateTotalTickets_sum_list)
  have no_adult:
    "(find (\<lambda>r. getTicketType r = ''ADULT'') rs = None)
       = list_all (\<lambda>r. getTicketType r \<noteq> ''ADULT'') rs"
    by (auto simp add: find_None_iff list_all_iff)
  show ?thesis
  proof (cases "length rs > maxTicketsLimit")
    case True
    with entries have "sum_list (map noOfTickets rs) > 20"
      by (simp add: maxTicketsLimit_def)
    with True show ?thesis
      by (simp add: validatePurchase_many_entries spec_validate_def
          spec_countLimitViolated_def maxTicketsError_def)
  next
    case False
    with range have within: "sum_list (map noOfTickets rs) \<le> 20"
      by simp
    from entries have zero: "(sum_list (map noOfTickets rs) < 1)
        = (calculateTotalTickets rs = 0)"
      by (simp add: calculateTotalTickets_sum_list) linarith
    from False within show ?thesis
      unfolding validatePurchase_tests_in_order spec_validate_def
      by (auto simp add: spec_countLimitViolated_def spec_emptinessViolated_def
          spec_adultAccompanimentViolated_def zero no_adult list_ex_iff)
  qed
qed

text \<open>
  On every list of at most 20 entries whose total exceeds 20 the two part: the
  specification reports the count limit, the code never does.
\<close>

lemma validatePurchase_misses_count_limit:
  assumes "\<not> length rs > maxTicketsLimit" and "sum_list (map noOfTickets rs) > 20"
  shows "spec_validate rs = Inl maxTicketsError"
    and "validatePurchase rs \<noteq> Inl maxTicketsError"
  using assms
  by (simp_all add: spec_validate_def spec_countLimitViolated_def validatePurchase_def
      maxTicketsError_def Let_def)

text \<open>
  Claim C2: validate applies its rules in a fixed order, the count-limit check first, then
  the emptiness check, then the adult-accompaniment check, and when several rules are
  violated the error reported is that of the first rule in this order that fails.

  One request for 21 child tickets violates the count limit (the total is 21) and the
  adult rule. The first of the two in the order is the count limit, and \<open>spec_validate\<close>
  reports it. The code reports the adult rule: its count-limit test looks at the number
  of entries, which is 1, so the test does not fire. This is the defect of claim C1.
\<close>

theorem validatePurchase_reports_later_rule:
  "spec_countLimitViolated [\<lparr>getTicketType = ''CHILD'', noOfTickets = 21\<rparr>]
   \<and> spec_adultAccompanimentViolated [\<lparr>getTicketType = ''CHILD'', noOfTickets = 21\<rparr>]
   \<and> spec_validate [\<lparr>getTicketType = ''CHILD'', noOfTickets = 21\<rparr>]
       = Inl (Error ''Maximum of 20 tickets can be purchased at a time'')
   \<and> validatePurchase [\<lparr>getTicketType = ''CHILD'', noOfTickets = 21\<rparr>]
       = Inl (Error ''Child and Infant tickets cannot be purchased without purchasing an Adult ticket'')"
  by (simp add: spec_validate_def spec_countLimitViolated_def
      spec_adultAccompanimentViolated_def maxTicketsError_def validatePurchase_def
      calculateTotalTickets_def maxTicketsLimit_def)

text \<open>
  Claim C3: every request list whose total requested ticket count is zero (in particular
  the empty list), and that does not fail the count-limit check, is refused by validate
  with the no-tickets-selected message; the total ticket count of the empty list is 0,
  and that of a list with the counts 2, 3 and 1 is 6.

  The count-limit check is the one \<^verbatim>\<open>validatePurchase\<close> performs, on the number of
  entries, which runs before the test of the total.
\<close>

theorem validatePurchase_no_tickets_selected:
  "(calculateTotalTickets rs = 0 \<and> \<not> length rs > maxTicketsLimit
      \<longrightarrow> validatePurchase rs = Inl (Error ''No tickets selected''))
   \<and> validatePurchase [] = Inl (Error ''No tickets selected'')
   \<and> calculateTotalTickets [] = 0
   \<and> calculateTotalTickets
        [\<lparr>getTicketType = a, noOfTickets = 2\<rparr>, \<lparr>getTicketType = b, noOfTickets = 3\<rparr>,
         \<lparr>getTicketType = c, noOfTickets = 1\<rparr>] = 6"
  by (simp add: validatePurchase_def calculateTotalTickets_def Let_def maxTicketsLimit_def)

theorem validatePurchase_no_tickets_selected_witness:
  "calculateTotalTickets [\<lparr>getTicketType = ''ADULT'', noOfTickets = 0\<rparr>] = 0
   \<and> \<not> length [\<lparr>getTicketType = ''ADULT'', noOfTickets = 0\<rparr>] > maxTicketsLimit
   \<and> validatePurchase [\<lparr>getTicketType = ''ADULT'', noOfTickets = 0\<rparr>]
       = Inl (Error ''No tickets selected'')"
proof -
  let ?rs = "[\<lparr>getTicketType = ''ADULT'', noOfTickets = 0\<rparr>]"
  have t: "calculateTotalTickets ?rs = 0"
    by (simp add: calculateTotalTickets_def)
  have l: "\<not> length ?rs > maxTicketsLimit"
    by (simp add: maxTicketsLimit_def)
  from validatePurchase_no_tickets_selected [of ?rs] t l
  have "validatePurchase ?rs = Inl (Error ''No tickets selected'')"
    by blast
  with t l show ?thesis by blast
qed

text \<open>
  Claim C4: on every request list that passes the count-limit and emptiness checks,
  validate fails with the adult-required message exactly when the list contains some
  CHILD or INFANT request with a count above 0 and contains no ADULT request, and succeeds
  otherwise; in particular it succeeds when an ADULT request is present.

  A list passes the two earlier checks when it has at most 20 entries and its total is
  not zero. By \<open>positive_counts_within_limit\<close> this covers every list of positive
  counts whose total is between 1 and 20.
\<close>

theorem validatePurchase_adult_required:
  assumes "\<not> length rs > maxTicketsLimit" and "calculateTotalTickets rs \<noteq> 0"
  shows "validatePurchase rs =
           (if (\<exists>r\<in>set rs. (getTicketType r = ''CHILD'' \<or> getTicketType r = ''INFANT'')
                             \<and> noOfTickets r > 0)
               \<and> \<not> (\<exists>r\<in>set rs. getTicketType r = ''ADULT'')
            then Inl (Error ''Child and Infant tickets cannot be purchased without purchasing an Adult ticket'')
            else Inr ())
         \<and> ((\<exists>r\<in>set rs. getTicketType r = ''ADULT'') \<longrightarrow> validatePurchase rs = Inr ())"
proof -
  from assms have checks:
    "validatePurchase rs =
       (if list_ex (\<lambda>r. (getTicketType r = ''CHILD'' \<or> getTicketType r = ''INFANT'')
                        \<and> noOfTickets r > 0
                        \<and> find (\<lambda>r. getTicketType r = ''ADULT'') rs = None) rs
        then Inl (Error ''Child and Infant tickets cannot be purchased without purchasing an Adult ticket'')
        else Inr ())"
    by (simp add: validatePurchase_def Let_def)
  have no_adult:
    "(find (\<lambda>r. getTicketType r = ''ADULT'') rs = None)
       = (\<not> (\<exists>r\<in>set rs. getTicketType r = ''ADULT''))"
    by (auto simp add: find_None_iff)
  show ?thesis
    unfolding checks no_adult list_ex_iff by auto
qed

theorem validatePurchase_adult_required_witness:
  "\<not> length [\<lparr>getTicketType = ''CHILD'', noOfTickets = 1\<rparr>] > maxTicketsLimit
   \<and> calculateTotalTickets [\<lparr>getTicketType = ''CHILD'', noOfTickets = 1\<rparr>] \<noteq> 0
   \<and> validatePurchase [\<lparr>getTicketType = ''CHILD'', noOfTickets = 1\<rparr>]
       = Inl (Error ''Child and Infant tickets cannot be purchased without purchasing an Adult ticket'')
   \<and> validatePurchase [\<lparr>getTicketType = ''INFANT'', noOfTickets = 1\<rparr>,
                        \<lparr>getTicketType = ''ADULT'', noOfTickets = 2\<rparr>] = Inr ()"
proof -
  let ?child = "[\<lparr>getTicketType = ''CHILD'', noOfTickets = 1\<rparr>]"
  let ?family = "[\<lparr>getTicketType = ''INFANT'', noOfTickets = 1\<rparr>,
                  \<lparr>getTicketType = ''ADULT'', noOfTickets = 2\<rparr>]"
  have l1: "\<not> length ?child > maxTicketsLimit" and l2: "\<not> length ?family > maxTicketsLimit"
    by (simp_all add: maxTicketsLimit_def)
  have t1: "calculateTotalTickets ?child \<noteq> 0" and t2: "calculateTotalTickets ?family \<noteq> 0"
    by (simp_all add: calculateTotalTickets_def)
  from validatePurchase_adult_required [OF l1 t1]
  have v1: "validatePurchase ?child
       = Inl (Error ''Child and Infant tickets cannot be purchased without purchasing an Adult ticket'')"
    by simp
  from validatePurchase_adult_required [OF l2 t2]
  have v2: "validatePurchase ?family = Inr ()"
    by simp
  from l1 t1 v1 v2 show ?thesis by blast
qed

subsection \<open>Prices\<close>

text \<open>
  On the three categories of the table the lookup returns the price, and the total is the
  sum of count times price. A category that is neither in the table nor a member of
  \<^verbatim>\<open>Object.prototype\<close> makes the lookup throw.
\<close>

lemma reducePrice_table:
  "list_all (\<lambda>r. getTicketType r \<in> {''ADULT'', ''CHILD'', ''INFANT''}) rs \<Longrightarrow>
   reducePrice (Num a) rs =
     Inr (Num (a + sum_list (map (\<lambda>r. noOfTickets r *
                 (if getTicketType r = ''ADULT'' then 20
                  else if getTicketType r = ''CHILD'' then 10 else 0)) rs)))"
  by (induction rs arbitrary: a) (auto simp add: getTicketPrice_table)

lemma calculateTotalPrice_table:
  "list_all (\<lambda>r. getTicketType r \<in> {''ADULT'', ''CHILD'', ''INFANT''}) rs \<Longrightarrow>
   calculateTotalPrice accountId rs =
     Inr (Num (sum_list (map (\<lambda>r. noOfTickets r *
                 (if getTicketType r = ''ADULT'' then 20
                  else if getTicketType r = ''CHILD'' then 10 else 0)) rs)))"
  by (simp add: calculateTotalPrice_def reducePrice_table)

lemma calculateTotalPrice_examples:
  "calculateTotalPrice accountId [] = Inr (Num 0)"
  "calculateTotalPrice accountId
     [\<lparr>getTicketType = ''ADULT'', noOfTickets = 2\<rparr>,
      \<lparr>getTicketType = ''CHILD'', noOfTickets = 3\<rparr>] = Inr (Num 70)"
  by (simp_all add: calculateTotalPrice_def getTicketPrice_table)

lemma getTicketPrice_unknown:
  "k \<notin> {''ADULT'', ''CHILD'', ''INFANT''} \<Longrightarrow> k \<notin> set objectPrototypeKeys \<Longrightarrow>
   getTicketPrice k = Inl (InvalidPurchaseException (''Invalid ticket type: '' @ k))"
  by (simp add: getTicketPrice_def ticketTypes_get_def ticketTypes_def)

lemma getTicketPrice_INVALID_TYPE:
  "getTicketPrice ''INVALID_TYPE''
     = Inl (InvalidPurchaseException ''Invalid ticket type: INVALID_TYPE'')"
  by (simp add: getTicketPrice_def ticketTypes_get_def ticketTypes_def objectPrototypeKeys_def)

lemma getTicketPrice_inherited:
  "k \<in> set objectPrototypeKeys \<Longrightarrow> getTicketPrice k = Inr Undefined"
  by (auto simp add: getTicketPrice_def ticketTypes_get_def ticketTypes_def
      objectPrototypeKeys_def)

text \<open>
  Claim C5: on request lists whose categories all lie in the table ADULT 20, CHILD 10,
  INFANT 0 the total price is the sum of count times price (0 for the empty list, 70 for
  two adults and three children), the price of ADULT is 20, and for any category outside
  the table the price lookup fails with the message "Invalid ticket type: <category>".

  The last part does not hold of the code. \<^verbatim>\<open>constructor\<close> is not a key of the table,
  yet \<^verbatim>\<open>this.ticketTypes['constructor']\<close> is the inherited \<^verbatim>\<open>Object\<close> function, which is
  truthy: the guard \<^verbatim>\<open>!ticketTypeObj\<close> does not fire, the lookup returns the \<^verbatim>\<open>price\<close>
  of that function, which is \<^verbatim>\<open>undefined\<close>, and the total price becomes \<^verbatim>\<open>NaN\<close>. Such
  a request passes validation, and \<^verbatim>\<open>purchase\<close> sends \<^verbatim>\<open>NaN\<close> to the payment
  collaborator.
\<close>

theorem getTicketPrice_constructor_not_refused:
  "map_of ticketTypes ''constructor'' = None
   \<and> getTicketPrice ''constructor'' = Inr Undefined
   \<and> calculateTotalPrice accountId [\<lparr>getTicketType = ''constructor'', noOfTickets = 1\<rparr>]
       = Inr NaN
   \<and> purchase payResolves reserveResolves ''112233''
         [\<lparr>getTicketType = ''constructor'', noOfTickets = 1\<rparr>]
       = (Returned Resolved, [Pay ''112233'' NaN, ReserveSeats 0])"
  by (simp add: purchase_def validatePurchase_def calculateTotalTickets_def
      maxTicketsLimit_def calculateTotalPrice_def getTicketPrice_def ticketTypes_get_def
      ticketTypes_def objectPrototypeKeys_def payResolves_def reserveResolves_def
      reserveSeats_def seatsToReserve_def)

subsection \<open>Seats\<close>

text \<open>
  Claim C6: the seat count passed to the seat-reservation collaborator is the sum of the
  counts of the ADULT and CHILD requests only; an INFANT request contributes no seat.
  Two adults and three children need 5 seats, one infant and two adults need 2.
\<close>

theorem reserveSeats_adult_and_child_only:
  "reserveSeats seatReservationService rs calls =
     (seatReservationService
        (sum_list (map noOfTickets
           (filter (\<lambda>r. getTicketType r = ''ADULT'' \<or> getTicketType r = ''CHILD'') rs))),
      calls @ [ReserveSeats
        (sum_list (map noOfTickets
           (filter (\<lambda>r. getTicketType r = ''ADULT'' \<or> getTicketType r = ''CHILD'') rs)))])
   \<and> seatsToReserve (xs @ \<lparr>getTicketType = ''INFANT'', noOfTickets = n\<rparr> # ys)
       = seatsToReserve (xs @ ys)
   \<and> seatsToReserve [\<lparr>getTicketType = ''ADULT'', noOfTickets = 2\<rparr>,
                      \<lparr>getTicketType = ''CHILD'', noOfTickets = 3\<rparr>] = 5
   \<and> seatsToReserve [\<lparr>getTicketType = ''INFANT'', noOfTickets = 1\<rparr>,
                      \<lparr>getTicketType = ''ADULT'', noOfTickets = 2\<rparr>] = 2"
proof -
  have each: "seatsToReserve zs =
      sum_list (map (\<lambda>r. if getTicketType r = ''ADULT'' \<or> getTicketType r = ''CHILD''
                          then noOfTickets r else 0) zs)" for zs
    by (simp add: seatsToReserve_def Let_def foldl_plus_sum_list)
  have "sum_list (map (\<lambda>r. if getTicketType r = ''ADULT'' \<or> getTicketType r = ''CHILD''
                          then noOfTickets r else 0) rs)
        = sum_list (map noOfTickets
            (filter (\<lambda>r. getTicketType r = ''ADULT'' \<or> getTicketType r = ''CHILD'') rs))"
    by (induction rs) simp_all
  with each [of rs] have seats: "seatsToReserve rs =
      sum_list (map noOfTickets
        (filter (\<lambda>r. getTicketType r = ''ADULT'' \<or> getTicketType r = ''CHILD'') rs))"
    by simp
  have call: "reserveSeats seatReservationService rs calls =
      (seatReservationService (seatsToReserve rs), calls @ [ReserveSeats (seatsToReserve rs)])"
    by (simp add: reserveSeats_def Let_def)
  have infant: "seatsToReserve (xs @ \<lparr>getTicketType = ''INFANT'', noOfTickets = n\<rparr> # ys)
       = seatsToReserve (xs @ ys)"
    by (simp add: each)
  have five: "seatsToReserve [\<lparr>getTicketType = ''ADULT'', noOfTickets = 2\<rparr>,
                      \<lparr>getTicketType = ''CHILD'', noOfTickets = 3\<rparr>] = 5"
    by (simp add: seatsToReserve_def)
  have two: "seatsToReserve [\<lparr>getTicketType = ''INFANT'', noOfTickets = 1\<rparr>,
                      \<lparr>getTicketType = ''ADULT'', noOfTickets = 2\<rparr>] = 2"
    by (simp add: seatsToReserve_def)
  from call seats infant five two show ?thesis by simp
qed

subsection \<open>The purchase\<close>

text \<open>
  Claim C7: the collaborators are invoked in sequence, each gated by the success of the
  step before. When validation fails, neither the payment nor the reservation collaborator
  is invoked; when the payment collaborator fails, the reservation collaborator is not
  invoked and purchase rejects.
\<close>

theorem purchase_gated_by_success:
  "(validatePurchase rs = Inl e \<longrightarrow> purchase pay reserve accountId rs = (Threw e, []))
   \<and> (validatePurchase rs = Inr () \<and> calculateTotalPrice accountId rs = Inr totalPrice
        \<and> pay accountId totalPrice = Rejected err \<longrightarrow>
      purchase pay reserve accountId rs =
        (Returned (Rejected (InvalidPurchaseException (message err))),
         [Pay accountId totalPrice]))"
  by (simp add: purchase_validation_throws purchase_payment_rejected)

theorem purchase_gated_by_success_witness:
  "validatePurchase [] = Inl (Error ''No tickets selected'')
   \<and> purchase payResolves reserveResolves ''112233'' []
       = (Threw (Error ''No tickets selected''), [])
   \<and> validatePurchase [\<lparr>getTicketType = ''ADULT'', noOfTickets = 2\<rparr>] = Inr ()
   \<and> calculateTotalPrice ''112233'' [\<lparr>getTicketType = ''ADULT'', noOfTickets = 2\<rparr>]
       = Inr (Num 40)
   \<and> payRejects ''112233'' (Num 40) = Rejected (Error ''Payment failed'')
   \<and> purchase payRejects reserveResolves ''112233''
         [\<lparr>getTicketType = ''ADULT'', noOfTickets = 2\<rparr>]
       = (Returned (Rejected (InvalidPurchaseException ''Payment failed'')),
          [Pay ''112233'' (Num 40)])"
proof -
  let ?rs = "[\<lparr>getTicketType = ''ADULT'', noOfTickets = 2\<rparr>]"
  note v0 = validatePurchase_Nil
  note v1 = validatePurchase_two_adults
  note p1 = calculateTotalPrice_two_adults [of "''112233''"]
  have r1: "payRejects ''112233'' (Num 40) = Rejected (Error ''Payment failed'')"
    by (simp add: payRejects_def)
  from purchase_gated_by_success
         [of "[]" "Error ''No tickets selected''" payResolves reserveResolves "''112233''"] v0
  have a: "purchase payResolves reserveResolves ''112233'' []
       = (Threw (Error ''No tickets selected''), [])"
    by blast
  from purchase_gated_by_success
         [of ?rs _ payRejects reserveResolves "''112233''" "Num 40" "Error ''Payment failed''"]
       v1 p1 r1
  have b: "purchase payRejects reserveResolves ''112233'' ?rs
       = (Returned (Rejected (InvalidPurchaseException ''Payment failed'')),
          [Pay ''112233'' (Num 40)])"
    by simp
  from v0 v1 p1 r1 a b show ?thesis by blast
qed

text \<open>
  Claim C8, as stated: every failure of a purchase call, a validation failure as much as a
  failure of the payment or reservation collaborator, reaches the caller as a rejected
  promise carrying the one purchase-exception type.

  A purchase of the empty list fails validation. The call does not return a rejected
  promise: \<^verbatim>\<open>validatePurchase\<close> runs before the promise chain is built, so its generic
  \<^verbatim>\<open>Error\<close> is thrown by \<^verbatim>\<open>purchase\<close> itself.
\<close>

theorem purchase_empty_list_throws:
  "validatePurchase [] = Inl (Error ''No tickets selected'')
   \<and> fst (purchase payResolves reserveResolves ''112233'' [])
       = Threw (Error ''No tickets selected'')
   \<and> \<not> rejectsWithPurchaseException
         (fst (purchase payResolves reserveResolves ''112233'' []))"
  by (simp add: validatePurchase_Nil purchase_validation_throws)

text \<open>
  Claim C8, amended: every failure of the payment or of the reservation collaborator
  reaches the caller as a rejected promise carrying the purchase-exception type, which
  wraps the message of the originating failure. A validation failure is thrown by
  purchase synchronously, as the generic error validate raised, with its message; an
  invalid ticket category met while the price is computed is thrown synchronously as
  well, as a purchase exception.
\<close>

theorem purchase_failures:
  "(validatePurchase rs = Inr () \<and> calculateTotalPrice accountId rs = Inr totalPrice
      \<and> pay accountId totalPrice = Rejected err \<longrightarrow>
    fst (purchase pay reserve accountId rs)
      = Returned (Rejected (InvalidPurchaseException (message err))))
   \<and> (validatePurchase rs = Inr () \<and> calculateTotalPrice accountId rs = Inr totalPrice
        \<and> pay accountId totalPrice = Resolved \<and> reserve (seatsToReserve rs) = Rejected err \<longrightarrow>
      fst (purchase pay reserve accountId rs)
        = Returned (Rejected (InvalidPurchaseException (message err))))
   \<and> (validatePurchase rs = Inl e \<longrightarrow>
      fst (purchase pay reserve accountId rs) = Threw e \<and> e = Error (message e))
   \<and> (validatePurchase rs = Inr () \<and> calculateTotalPrice accountId rs = Inl e \<longrightarrow>
      fst (purchase pay reserve accountId rs) = Threw e
      \<and> e = InvalidPurchaseException (message e))"
proof (intro conjI impI)
  assume "validatePurchase rs = Inr () \<and> calculateTotalPrice accountId rs = Inr totalPrice
      \<and> pay accountId totalPrice = Rejected err"
  then show "fst (purchase pay reserve accountId rs)
      = Returned (Rejected (InvalidPurchaseException (message err)))"
    by (simp add: purchase_payment_rejected)
next
  assume "validatePurchase rs = Inr () \<and> calculateTotalPrice accountId rs = Inr totalPrice
        \<and> pay accountId totalPrice = Resolved \<and> reserve (seatsToReserve rs) = Rejected err"
  then show "fst (purchase pay reserve accountId rs)
        = Returned (Rejected (InvalidPurchaseException (message err)))"
    by (simp add: purchase_reservation_rejected)
next
  assume "validatePurchase rs = Inl e"
  then show "fst (purchase pay reserve accountId rs) = Threw e"
    by (simp add: purchase_validation_throws)
next
  assume "validatePurchase rs = Inl e"
  then show "e = Error (message e)"
    by (rule validatePurchase_throws_Error)
next
  assume "validatePurchase rs = Inr () \<and> calculateTotalPrice accountId rs = Inl e"
  then show "fst (purchase pay reserve accountId rs) = Threw e"
    by (simp add: purchase_pricing_throws)
next
  assume "validatePurchase rs = Inr () \<and> calculateTotalPrice accountId rs = Inl e"
  then have "reducePrice (Num 0) rs = Inl e"
    by (simp add: calculateTotalPrice_def)
  then show "e = InvalidPurchaseException (message e)"
    by (rule reducePrice_throws_InvalidPurchaseException)
qed

theorem purchase_failures_witness:
  "purchase payRejects reserveResolves ''112233''
       [\<lparr>getTicketType = ''ADULT'', noOfTickets = 2\<rparr>]
     = (Returned (Rejected (InvalidPurchaseException ''Payment failed'')),
        [Pay ''112233'' (Num 40)])
   \<and> purchase payResolves reserveRejects ''112233''
         [\<lparr>getTicketType = ''ADULT'', noOfTickets = 2\<rparr>]
       = (Returned (Rejected (InvalidPurchaseException ''Reservation failed'')),
          [Pay ''112233'' (Num 40), ReserveSeats 2])
   \<and> purchase payResolves reserveResolves ''112233'' []
       = (Threw (Error ''No tickets selected''), [])
   \<and> purchase payResolves reserveResolves ''112233''
         [\<lparr>getTicketType = ''ADULT'', noOfTickets = 1\<rparr>,
          \<lparr>getTicketType = ''SENIOR'', noOfTickets = 1\<rparr>]
       = (Threw (InvalidPurchaseException ''Invalid ticket type: SENIOR''), [])"
proof -
  let ?rs = "[\<lparr>getTicketType = ''ADULT'', noOfTickets = 2\<rparr>]"
  let ?senior = "[\<lparr>getTicketType = ''ADULT'', noOfTickets = 1\<rparr>,
                  \<lparr>getTicketType = ''SENIOR'', noOfTickets = 1\<rparr>]"
  note v = validatePurchase_two_adults
  note p = calculateTotalPrice_two_adults [of "''112233''"]
  note s = seatsToReserve_two_adults
  have vs: "validatePurchase ?senior = Inr ()"
    by (simp add: validatePurchase_def calculateTotalTickets_def maxTicketsLimit_def)
  have ps: "calculateTotalPrice ''112233'' ?senior
      = Inl (InvalidPurchaseException ''Invalid ticket type: SENIOR'')"
    by (simp add: calculateTotalPrice_def getTicketPrice_def ticketTypes_get_def
        ticketTypes_def objectPrototypeKeys_def)
  have "fst (purchase payRejects reserveResolves ''112233'' ?rs)
      = Returned (Rejected (InvalidPurchaseException ''Payment failed''))"
    using purchase_failures
            [of ?rs "''112233''" "Num 40" payRejects "Error ''Payment failed''" reserveResolves]
          v p
    by (simp add: payRejects_def)
  moreover have "snd (purchase payRejects reserveResolves ''112233'' ?rs)
      = [Pay ''112233'' (Num 40)]"
    using v p by (simp add: purchase_def payRejects_def)
  moreover have "fst (purchase payResolves reserveRejects ''112233'' ?rs)
      = Returned (Rejected (InvalidPurchaseException ''Reservation failed''))"
    using purchase_failures
            [of ?rs "''112233''" "Num 40" payResolves "Error ''Reservation failed''"
                reserveRejects]
          v p s
    by (simp add: payResolves_def reserveRejects_def)
  moreover have "snd (purchase payResolves reserveRejects ''112233'' ?rs)
      = [Pay ''112233'' (Num 40), ReserveSeats 2]"
    using v p s
    by (simp add: purchase_def payResolves_def reserveRejects_def reserveSeats_def)
  moreover have "fst (purchase payResolves reserveResolves ''112233'' [])
      = Threw (Error ''No tickets selected'')"
    using purchase_failures
            [of "[]" "''112233''" _ payResolves _ reserveResolves
                "Error ''No tickets selected''"]
          validatePurchase_Nil
    by simp
  moreover have "snd (purchase payResolves reserveResolves ''112233'' []) = []"
    by (simp add: purchase_def validatePurchase_Nil)
  moreover have "fst (purchase payResolves reserveResolves ''112233'' ?senior)
      = Threw (InvalidPurchaseException ''Invalid ticket type: SENIOR'')"
    using purchase_failures
            [of ?senior "''112233''" _ payResolves _ reserveResolves
                "InvalidPurchaseException ''Invalid ticket type: SENIOR''"]
          vs ps
    by simp
  moreover have "snd (purchase payResolves reserveResolves ''112233'' ?senior) = []"
    using vs ps by (simp add: purchase_def)
  ultimately show ?thesis
    by (simp add: prod_eq_iff)
qed

text \<open>
  Claim C9: for a purchase of the single request of 2 ADULT tickets, when both
  collaborators succeed, the payment collaborator is called exactly once, with the
  computed price 40, the reservation collaborator is called exactly once, with the seat
  count 2, and the call resolves.
\<close>

theorem purchase_two_adults:
  assumes "pay accountId (Num 40) = Resolved" and "reserve 2 = Resolved"
  shows "purchase pay reserve accountId [\<lparr>getTicketType = ''ADULT'', noOfTickets = 2\<rparr>]
           = (Returned Resolved, [Pay accountId (Num 40), ReserveSeats 2])"
  using assms
  by (simp add: purchase_resolved validatePurchase_two_adults calculateTotalPrice_two_adults
      seatsToReserve_two_adults)

theorem purchase_two_adults_witness:
  "payResolves ''112233'' (Num 40) = Resolved \<and> reserveResolves 2 = Resolved
   \<and> purchase payResolves reserveResolves ''112233''
         [\<lparr>getTicketType = ''ADULT'', noOfTickets = 2\<rparr>]
       = (Returned Resolved, [Pay ''112233'' (Num 40), ReserveSeats 2])"
proof -
  have paid: "payResolves ''112233'' (Num 40) = Resolved"
    by (simp add: payResolves_def)
  have reserved: "reserveResolves 2 = Resolved"
    by (simp add: reserveResolves_def)
  from paid reserved
    purchase_two_adults [of payResolves "''112233''" reserveResolves, OF paid reserved]
  show ?thesis
    by blast
qed

text \<open>
  Claim C10: for every request list and any two account identifiers the total price is
  the same; the account identifier is not read, so the amount a purchase sends to the
  payment collaborator is the total computed for any other account as well.
\<close>

theorem calculateTotalPrice_ignores_accountId:
  "calculateTotalPrice a1 rs = calculateTotalPrice a2 rs
   \<and> (Pay a t \<in> set (snd (purchase pay reserve a1 rs))
        \<longrightarrow> calculateTotalPrice a2 rs = Inr t)"
proof
  show "calculateTotalPrice a1 rs = calculateTotalPrice a2 rs"
    by (simp add: calculateTotalPrice_def)
next
  show "Pay a t \<in> set (snd (purchase pay reserve a1 rs))
          \<longrightarrow> calculateTotalPrice a2 rs = Inr t"
  proof
    assume sent: "Pay a t \<in> set (snd (purchase pay reserve a1 rs))"
    show "calculateTotalPrice a2 rs = Inr t"
    proof (cases "validatePurchase rs")
      case (Inl e)
      with sent show ?thesis by (simp add: purchase_def)
    next
      case (Inr u)
      show ?thesis
      proof (cases "calculateTotalPrice a1 rs")
        case (Inl e)
        with Inr sent show ?thesis by (simp add: purchase_def)
      next
        case price: (Inr x)
        with Inr sent
        have "Pay a t \<in> set (snd (catch_promise
                 (then_promise (pay a1 x, [Pay a1 x]) (reserveSeats reserve rs))))"
          by (simp add: purchase_def split: prod.splits)
        with purchase_chain_calls [of "pay a1 x" a1 x reserve rs]
        have "x = t" by auto
        with price show ?thesis by (simp add: calculateTotalPrice_def)
      qed
    qed
  qed
qed

theorem calculateTotalPrice_ignores_accountId_witness:
  "calculateTotalPrice ''112233'' [\<lparr>getTicketType = ''ADULT'', noOfTickets = 2\<rparr>]
     = calculateTotalPrice ''accountId'' [\<lparr>getTicketType = ''ADULT'', noOfTickets = 2\<rparr>]
   \<and> Pay ''112233'' (Num 40)
       \<in> set (snd (purchase payResolves reserveResolves ''112233''
                     [\<lparr>getTicketType = ''ADULT'', noOfTickets = 2\<rparr>]))
   \<and> calculateTotalPrice ''accountId'' [\<lparr>getTicketType = ''ADULT'', noOfTickets = 2\<rparr>]
       = Inr (Num 40)"
proof -
  let ?rs = "[\<lparr>getTicketType = ''ADULT'', noOfTickets = 2\<rparr>]"
  have "purchase payResolves reserveResolves ''112233'' ?rs
      = (Returned Resolved, [Pay ''112233'' (Num 40), ReserveSeats 2])"
    by (simp add: purchase_resolved validatePurchase_two_adults
        calculateTotalPrice_two_adults seatsToReserve_two_adults payResolves_def
        reserveResolves_def)
  then have sent: "Pay ''112233'' (Num 40)
      \<in> set (snd (purchase payResolves reserveResolves ''112233'' ?rs))"
    by simp
  from calculateTotalPrice_ignores_accountId
         [of "''112233''" ?rs "''accountId''" "''112233''" "Num 40" payResolves reserveResolves]
       sent
  show ?thesis by blast
qed

end
